theory Spec2Isabelle
  imports Main "HOL-Library.Word"
begin

section \<open>Integer rectangles\<close>

text \<open>
  \<^verbatim>\<open>SkSpecialImage.h\<close> includes \<^verbatim>\<open>include/core/SkRect.h\<close> and
  \<^verbatim>\<open>include/core/SkSize.h\<close>, which are not among the sources. The types
  \<^verbatim>\<open>SkIPoint\<close>, \<^verbatim>\<open>SkISize\<close> and \<^verbatim>\<open>SkIRect\<close> and the members the header
  calls on them are therefore modelled from the specification. Coordinates are
  mathematical integers: the specification speaks of "adding the current subset's
  origin", and no statement below depends on what happens beyond the range of a
  machine \<^verbatim>\<open>int\<close>.
\<close>

record SkIPoint =
  fX :: int
  fY :: int

record SkISize =
  fWidth :: int
  fHeight :: int

record SkIRect =
  fLeft :: int
  fTop :: int
  fRight :: int
  fBottom :: int

text \<open>Modelled from the spec: \<^verbatim>\<open>SkIRect::topLeft\<close> (SkRect.h is missing), the
  origin (top-left corner) of a rectangle.\<close>

definition topLeft :: "SkIRect \<Rightarrow> SkIPoint" where
  "topLeft r = \<lparr>fX = fLeft r, fY = fTop r\<rparr>"

text \<open>Modelled from the spec: \<^verbatim>\<open>SkIRect::makeOffset\<close> (SkRect.h is missing), the
  rectangle moved by an offset: the horizontal edges by the offset's x, the vertical
  edges by its y.\<close>

definition makeOffset :: "SkIRect \<Rightarrow> SkIPoint \<Rightarrow> SkIRect" where
  "makeOffset r d =
     \<lparr>fLeft = fLeft r + fX d, fTop = fTop r + fY d,
      fRight = fRight r + fX d, fBottom = fBottom r + fY d\<rparr>"

text \<open>Modelled from the spec: \<^verbatim>\<open>SkIRect::width\<close> and \<^verbatim>\<open>SkIRect::height\<close>
  (SkRect.h is missing), the extent of a rectangle along each axis.\<close>

definition SkIRect_width :: "SkIRect \<Rightarrow> int" where
  "SkIRect_width r = fRight r - fLeft r"

definition SkIRect_height :: "SkIRect \<Rightarrow> int" where
  "SkIRect_height r = fBottom r - fTop r"

section \<open>The special image base class\<close>

text \<open>
  The class \<^verbatim>\<open>SkSpecialImage\<close> has four private constant members. A concrete
  variant adds its backing payload; the record carries it in the field \<open>backing\<close>,
  whose type is left open, so that every function of the base class is defined for
  every variant.
\<close>

record ('ci, 'sp, 'b) SkSpecialImage =
  fSubset :: SkIRect
  fUniqueID :: "32 word"
  fColorInfo :: 'ci
  fProps :: 'sp
  backing :: 'b

definition kNeedNewImageUniqueID_SpecialImage :: "32 word" where
  "kNeedNewImageUniqueID_SpecialImage = 0"

definition props :: "('ci, 'sp, 'b) SkSpecialImage \<Rightarrow> 'sp" where
  "props s = fProps s"

definition subset_of :: "('ci, 'sp, 'b) SkSpecialImage \<Rightarrow> SkIRect" where
  "subset_of s = fSubset s"

definition width :: "('ci, 'sp, 'b) SkSpecialImage \<Rightarrow> int" where
  "width s = SkIRect_width (fSubset s)"

definition height :: "('ci, 'sp, 'b) SkSpecialImage \<Rightarrow> int" where
  "height s = SkIRect_height (fSubset s)"

definition dimensions :: "('ci, 'sp, 'b) SkSpecialImage \<Rightarrow> SkISize" where
  "dimensions s = \<lparr>fWidth = width s, fHeight = height s\<rparr>"

definition uniqueID :: "('ci, 'sp, 'b) SkSpecialImage \<Rightarrow> 32 word" where
  "uniqueID s = fUniqueID s"

definition colorInfo :: "('ci, 'sp, 'b) SkSpecialImage \<Rightarrow> 'ci" where
  "colorInfo s = fColorInfo s"

text \<open>
  \<^verbatim>\<open>makeSubset\<close> is not virtual; it calls the pure virtual \<^verbatim>\<open>onMakeSubset\<close>,
  which each variant implements. The implementation is the first argument of the
  model. An \<^verbatim>\<open>sk_sp\<close> may be null, so the result is an option.
\<close>

definition makeSubset ::
  "(('ci, 'sp, 'b) SkSpecialImage \<Rightarrow> SkIRect \<Rightarrow> ('ci, 'sp, 'b) SkSpecialImage option) \<Rightarrow>
   ('ci, 'sp, 'b) SkSpecialImage \<Rightarrow> SkIRect \<Rightarrow> ('ci, 'sp, 'b) SkSpecialImage option" where
  "makeSubset onMakeSubset s r =
     (let absolute = makeOffset r (topLeft (subset_of s))
      in onMakeSubset s absolute)"

text \<open>
  The six-argument \<^verbatim>\<open>draw\<close> is declared in the header and defined elsewhere; it
  is the first argument \<open>draw\<close> of the models below, a function from the image, the
  canvas before the call and the arguments to the canvas after the call. The types
  \<^verbatim>\<open>SkCanvas\<close>, \<^verbatim>\<open>SkScalar\<close>, \<^verbatim>\<open>SkSamplingOptions\<close> and \<^verbatim>\<open>SkPaint\<close> are
  only declared, so they are type variables, and the default-constructed
  \<^verbatim>\<open>SkSamplingOptions()\<close> is the argument \<open>SkSamplingOptions0\<close>. A null paint is
  \<open>None\<close>.

  \<open>draw_default_strict\<close> is the call of the six-argument function with its last
  argument omitted: the declaration gives it the default \<^verbatim>\<open>strict = true\<close>.
\<close>

type_synonym ('img, 'cv, 'sc, 'so, 'pt) draw_fn =
  "'img \<Rightarrow> 'cv \<Rightarrow> 'sc \<Rightarrow> 'sc \<Rightarrow> 'so \<Rightarrow> 'pt option \<Rightarrow> bool \<Rightarrow> 'cv"

definition draw_default_strict ::
  "('img, 'cv, 'sc, 'so, 'pt) draw_fn \<Rightarrow>
   'img \<Rightarrow> 'cv \<Rightarrow> 'sc \<Rightarrow> 'sc \<Rightarrow> 'so \<Rightarrow> 'pt option \<Rightarrow> 'cv" where
  "draw_default_strict draw s canvas x y sampling paint =
     draw s canvas x y sampling paint True"

definition draw3 ::
  "('img, 'cv, 'sc, 'so, 'pt) draw_fn \<Rightarrow> 'so \<Rightarrow> 'img \<Rightarrow> 'cv \<Rightarrow> 'sc \<Rightarrow> 'sc \<Rightarrow> 'cv" where
  "draw3 draw SkSamplingOptions0 s canvas x y =
     draw_default_strict draw s canvas x y SkSamplingOptions0 None"

section \<open>The raster-backed variant and the factory functions\<close>

text \<open>
  The header only declares the factory functions, \<^verbatim>\<open>AsBitmap\<close> and the virtual
  members; the raster-backed class and the bodies live in a source file that is not
  among the sources. This section models them from the specification (sections 3,
  4.2 and 4.3).
\<close>

text \<open>Modelled from the spec: the pixel-map type (\<^verbatim>\<open>SkBitmap\<close> is only declared
  in the header): a colour descriptor, the dimensions and the pixels, row by row.
  The pixel type is left open.\<close>

record ('ci, 'px) SkBitmap =
  bmColorInfo :: 'ci
  bmWidth :: int
  bmHeight :: int
  bmPixels :: "'px list list"

text \<open>Modelled from the spec: a pixel map that describes its storage rightly; it
  holds exactly \<open>bmHeight\<close> rows of \<open>bmWidth\<close> pixels.\<close>

definition bitmap_wf :: "('ci, 'px) SkBitmap \<Rightarrow> bool" where
  "bitmap_wf bm \<longleftrightarrow>
     0 \<le> bmWidth bm \<and> 0 \<le> bmHeight bm \<and>
     length (bmPixels bm) = nat (bmHeight bm) \<and>
     list_all (\<lambda>row. length row = nat (bmWidth bm)) (bmPixels bm)"

text \<open>Modelled from the spec: \<^verbatim>\<open>SkIRect::MakeWH\<close>, \<^verbatim>\<open>SkIRect::isEmpty\<close> and
  \<^verbatim>\<open>SkIRect::contains\<close> (SkRect.h is missing): the rectangle of a given size at
  the origin, a rectangle without pixels (the spec names zero width or zero height;
  a rectangle whose edges are crossed has no pixels either), and "fully contained
  within".\<close>

definition MakeWH :: "int \<Rightarrow> int \<Rightarrow> SkIRect" where
  "MakeWH w h = \<lparr>fLeft = 0, fTop = 0, fRight = w, fBottom = h\<rparr>"

definition isEmpty :: "SkIRect \<Rightarrow> bool" where
  "isEmpty r \<longleftrightarrow> fRight r \<le> fLeft r \<or> fBottom r \<le> fTop r"

definition contains :: "SkIRect \<Rightarrow> SkIRect \<Rightarrow> bool" where
  "contains outer inner \<longleftrightarrow>
     fLeft outer \<le> fLeft inner \<and> fTop outer \<le> fTop inner \<and>
     fRight inner \<le> fRight outer \<and> fBottom inner \<le> fBottom outer"

text \<open>Modelled from the spec: the pixel bounds of a pixel map, and a pixel map
  that "has zero dimensions".\<close>

definition bounds :: "('ci, 'px) SkBitmap \<Rightarrow> SkIRect" where
  "bounds bm = MakeWH (bmWidth bm) (bmHeight bm)"

definition bitmap_empty :: "('ci, 'px) SkBitmap \<Rightarrow> bool" where
  "bitmap_empty bm \<longleftrightarrow> isEmpty (bounds bm)"

text \<open>Modelled from the spec: "cropped to subset". The rows from the top of the
  rectangle to its bottom, and of each the pixels from its left to its right. It is
  meant for a rectangle inside the pixel bounds, where the coordinates are not
  negative.\<close>

definition crop :: "'px list list \<Rightarrow> SkIRect \<Rightarrow> 'px list list" where
  "crop rows r =
     map (\<lambda>row. take (nat (SkIRect_width r)) (drop (nat (fLeft r)) row))
       (take (nat (SkIRect_height r)) (drop (nat (fTop r)) rows))"

text \<open>Modelled from the spec: the raster-backed variant (its class is not in the
  header), a special image whose backing payload is a pixel map.\<close>

type_synonym ('ci, 'sp, 'px) SkSpecialImage_Raster =
  "('ci, 'sp, ('ci, 'px) SkBitmap) SkSpecialImage"

text \<open>Modelled from the spec: the pixel content of a raster-backed special image,
  its backing store cropped to its subset.\<close>

definition pixel_content :: "('ci, 'sp, 'px) SkSpecialImage_Raster \<Rightarrow> 'px list list" where
  "pixel_content s = crop (bmPixels (backing s)) (fSubset s)"



text \<open>Modelled from the spec: the raster variant's \<^verbatim>\<open>onMakeSubset\<close>, whose body
  is missing. Section 4.2: it "must produce a new raster variant sharing the same
  underlying buffer (zero-copy) with the translated absolute subset"; it cannot
  fail. The spec does not say which identity the new object gets; it is the
  argument \<open>uid\<close>.\<close>

definition onMakeSubset_Raster ::
  "32 word \<Rightarrow> ('ci, 'sp, 'px) SkSpecialImage_Raster \<Rightarrow> SkIRect \<Rightarrow>
   ('ci, 'sp, 'px) SkSpecialImage_Raster option" where
  "onMakeSubset_Raster uid s absolute =
     Some \<lparr>fSubset = absolute, fUniqueID = uid, fColorInfo = fColorInfo s,
           fProps = fProps s, backing = backing s\<rparr>"



text \<open>Modelled from the spec: \<^verbatim>\<open>SkSpecialImages::CopyFromRaster\<close>, whose body is
  missing. Section 4.3: it "always allocates new storage and copies pixel data";
  section 8: with "a zero-width or zero-height source rectangle" it "fails (returns
  no object)"; the failures of section 4.2 apply as well. The new storage holds the
  pixels of the source rectangle and nothing else, so the subset of the new image is
  the whole of its storage.\<close>

definition CopyFromRaster ::
  "('ci \<Rightarrow> bool) \<Rightarrow> 32 word \<Rightarrow> SkIRect \<Rightarrow> ('ci, 'px) SkBitmap \<Rightarrow> 'sp \<Rightarrow>
   ('ci, 'sp, 'px) SkSpecialImage_Raster option" where
  "CopyFromRaster supported uid sub bm surfaceProps =
     (if isEmpty sub then None
      else if bitmap_empty bm \<or> \<not> supported (bmColorInfo bm) then None
      else
        let tmp = \<lparr>bmColorInfo = bmColorInfo bm,
                   bmWidth = SkIRect_width sub, bmHeight = SkIRect_height sub,
                   bmPixels = crop (bmPixels bm) sub\<rparr>
        in Some \<lparr>fSubset = MakeWH (SkIRect_width sub) (SkIRect_height sub),
                 fUniqueID = uid, fColorInfo = bmColorInfo bm,
                 fProps = surfaceProps, backing = tmp\<rparr>)"

text \<open>Modelled from the spec: what a pointer to the base class can point to
  (\<^verbatim>\<open>AsBitmap\<close> takes one). Section 9 names the closed set of variants: raster
  and two kinds of GPU texture. The GPU-backed variants are outside this core;
  their payload is the type variable \<open>'tex\<close>.\<close>

datatype ('ci, 'sp, 'px, 'tex) SkSpecialImage_ptr =
    RasterImage "('ci, 'sp, 'px) SkSpecialImage_Raster"
  | GaneshImage "('ci, 'sp, 'tex) SkSpecialImage"
  | GraphiteImage "('ci, 'sp, 'tex) SkSpecialImage"

text \<open>Modelled from the spec: the CPU-readable view of a raster-backed image (the
  raster case of \<^verbatim>\<open>AsBitmap\<close>): the backing store cropped to the subset, without a
  copy.\<close>

definition raster_view :: "('ci, 'sp, 'px) SkSpecialImage_Raster \<Rightarrow> ('ci, 'px) SkBitmap" where
  "raster_view s =
     \<lparr>bmColorInfo = bmColorInfo (backing s),
      bmWidth = width s, bmHeight = height s,
      bmPixels = pixel_content s\<rparr>"

text \<open>Modelled from the spec: \<^verbatim>\<open>SkSpecialImages::AsBitmap\<close>, whose body is missing.
  Section 4.3: it "extracts a CPU-readable pixel view from any special image
  (raster: zero-copy; GPU-backed: implies a readback ... external to this core).
  Returns failure (false) if extraction is impossible". The readback is the
  argument \<open>readback\<close>, \<open>None\<close> when it is impossible. The function writes through
  its second argument: the model takes the pixel map the caller passed and returns
  the flag with the pixel map after the call.\<close>

definition AsBitmap ::
  "('tex \<Rightarrow> SkIRect \<Rightarrow> ('ci, 'px) SkBitmap option) \<Rightarrow>
   ('ci, 'sp, 'px, 'tex) SkSpecialImage_ptr \<Rightarrow> ('ci, 'px) SkBitmap \<Rightarrow>
   bool \<times> ('ci, 'px) SkBitmap" where
  "AsBitmap readback img out =
     (case img of
        RasterImage s \<Rightarrow> (True, raster_view s)
      | GaneshImage s \<Rightarrow>
          (case readback (backing s) (fSubset s) of
             None \<Rightarrow> (False, out) | Some bm \<Rightarrow> (True, bm))
      | GraphiteImage s \<Rightarrow>
          (case readback (backing s) (fSubset s) of
             None \<Rightarrow> (False, out) | Some bm \<Rightarrow> (True, bm)))"


text \<open>A three by three pixel map and a special image on its two right columns, for
  the concrete instances below.\<close>

definition demo_bitmap :: "(unit, nat) SkBitmap" where
  "demo_bitmap = \<lparr>bmColorInfo = (), bmWidth = 3, bmHeight = 3,
                   bmPixels = [[1, 2, 3], [4, 5, 6], [7, 8, 9]]\<rparr>"

definition demo_image :: "(unit, unit, nat) SkSpecialImage_Raster" where
  "demo_image = \<lparr>fSubset = \<lparr>fLeft = 1, fTop = 0, fRight = 3, fBottom = 3\<rparr>,
                  fUniqueID = 7, fColorInfo = (), fProps = (), backing = demo_bitmap\<rparr>"



section \<open>Properties of the inline members\<close>

text \<open>
  C1. For every special image \<open>s\<close>, every implementation of \<^verbatim>\<open>onMakeSubset\<close> and
  every rectangle \<open>r\<close> in the local frame of \<open>s\<close>, \<open>makeSubset\<close> hands to
  \<^verbatim>\<open>onMakeSubset\<close> exactly the rectangle \<open>r\<close> offset by the top-left corner of
  the stored subset of \<open>s\<close>, and returns what \<^verbatim>\<open>onMakeSubset\<close> returns: the left
  and right edges are moved by the subset's left, the top and bottom edges by the
  subset's top.
\<close>

theorem makeSubset_translates_and_delegates:
  "makeSubset onMakeSubset s r = onMakeSubset s (makeOffset r (topLeft (fSubset s)))
   \<and> makeOffset r (topLeft (fSubset s)) =
       \<lparr>fLeft = fLeft r + fLeft (fSubset s), fTop = fTop r + fTop (fSubset s),
        fRight = fRight r + fLeft (fSubset s), fBottom = fBottom r + fTop (fSubset s)\<rparr>"
  by (simp add: makeSubset_def subset_of_def makeOffset_def topLeft_def)

text \<open>
  C6. \<open>width\<close> and \<open>height\<close> return the width and the height of the stored subset
  rectangle, \<open>dimensions\<close> the pair of both and \<open>subset\<close> the rectangle itself; they
  read nothing but the stored subset, so replacing the backing store (or any other
  member) by another one changes none of them.
\<close>

theorem accessors_report_stored_subset:
  "width s = fRight (fSubset s) - fLeft (fSubset s)
   \<and> height s = fBottom (fSubset s) - fTop (fSubset s)
   \<and> dimensions s = \<lparr>fWidth = fRight (fSubset s) - fLeft (fSubset s),
                      fHeight = fBottom (fSubset s) - fTop (fSubset s)\<rparr>
   \<and> subset_of s = fSubset s
   \<and> width (s\<lparr>fUniqueID := u, fColorInfo := c, fProps := p, backing := b\<rparr>) = width s
   \<and> height (s\<lparr>fUniqueID := u, fColorInfo := c, fProps := p, backing := b\<rparr>) = height s
   \<and> dimensions (s\<lparr>fUniqueID := u, fColorInfo := c, fProps := p, backing := b\<rparr>)
       = dimensions s
   \<and> subset_of (s\<lparr>fUniqueID := u, fColorInfo := c, fProps := p, backing := b\<rparr>) = subset_of s"
  by (simp add: width_def height_def dimensions_def subset_of_def
      SkIRect_width_def SkIRect_height_def)

text \<open>
  C10. For every implementation of the six-argument \<^verbatim>\<open>draw\<close>, every image,
  canvas and coordinates \<open>x\<close> and \<open>y\<close>, the three-argument overload leaves the canvas
  exactly as the six-argument call with default-constructed sampling options, a
  null paint and \<open>strict = true\<close> does.
\<close>

theorem draw3_is_full_draw_with_defaults:
  "draw3 draw SkSamplingOptions0 s canvas x y =
     draw s canvas x y SkSamplingOptions0 None True"
  by (simp add: draw3_def draw_default_strict_def)

text \<open>The image on the two right columns of the three by three pixel map reports
  the width of its subset, not the width of the pixel map.\<close>

lemma demo_image_reports_subset_size:
  "width demo_image = 2 \<and> height demo_image = 3 \<and> bmWidth (backing demo_image) = 3"
  by (simp add: width_def height_def demo_image_def demo_bitmap_def
      SkIRect_width_def SkIRect_height_def)

section \<open>Properties of the raster-backed variant and the factory functions\<close>

lemma crop_idem:
  "crop (crop rows r) (MakeWH (SkIRect_width r) (SkIRect_height r)) = crop rows r"
  by (simp add: crop_def MakeWH_def SkIRect_width_def SkIRect_height_def take_map o_def)

lemma length_crop:
  "length rows = nat h \<Longrightarrow> 0 \<le> fTop r \<Longrightarrow> fBottom r \<le> h \<Longrightarrow> fTop r \<le> fBottom r \<Longrightarrow>
   length (crop rows r) = nat (SkIRect_height r)"
  by (simp add: crop_def SkIRect_height_def)

lemma rows_crop:
  "list_all (\<lambda>row. length row = nat w) rows \<Longrightarrow> 0 \<le> fLeft r \<Longrightarrow> fRight r \<le> w \<Longrightarrow>
   fLeft r \<le> fRight r \<Longrightarrow>
   list_all (\<lambda>row. length row = nat (SkIRect_width r)) (crop rows r)"
  by (auto simp: crop_def SkIRect_width_def list_all_iff dest!: in_set_takeD in_set_dropD)

lemma crop_wf:
  assumes "bitmap_wf bm" and "contains (bounds bm) r" and "\<not> isEmpty r"
  shows "bitmap_wf \<lparr>bmColorInfo = c, bmWidth = SkIRect_width r, bmHeight = SkIRect_height r,
              bmPixels = crop (bmPixels bm) r\<rparr>"
proof -
  from assms(2,3) have b: "0 \<le> fLeft r" "0 \<le> fTop r" "fRight r \<le> bmWidth bm"
      "fBottom r \<le> bmHeight bm" "fLeft r \<le> fRight r" "fTop r \<le> fBottom r"
    by (simp_all add: contains_def bounds_def MakeWH_def isEmpty_def)
  from assms(1) have w: "length (bmPixels bm) = nat (bmHeight bm)"
      "list_all (\<lambda>row. length row = nat (bmWidth bm)) (bmPixels bm)"
    by (simp_all add: bitmap_wf_def)
  have "length (crop (bmPixels bm) r) = nat (SkIRect_height r)"
    using w(1) b(2,4,6) by (rule length_crop)
  moreover have "list_all (\<lambda>row. length row = nat (SkIRect_width r)) (crop (bmPixels bm) r)"
    using w(2) b(1,3,5) by (rule rows_crop)
  moreover have "0 \<le> SkIRect_width r" "0 \<le> SkIRect_height r"
    using b by (simp_all add: SkIRect_width_def SkIRect_height_def)
  ultimately show ?thesis by (simp add: bitmap_wf_def)
qed

text \<open>
  C3. For every raster-backed special image \<open>s\<close>, every rectangle \<open>r1\<close> inside the
  logical bounds of \<open>s\<close> and every rectangle \<open>r2\<close> inside the logical bounds of
  the first result, \<open>makeSubset\<close> of \<open>r1\<close> followed by \<open>makeSubset\<close> of \<open>r2\<close>
  and a single \<open>makeSubset\<close> of \<open>r2\<close> translated by the origin of \<open>r1\<close> both
  succeed and give images with the same pixel content: the same subset of the same
  backing store, whatever identities the new objects get.
\<close>

theorem makeSubset_twice_is_makeSubset_once:
  assumes "contains (MakeWH (width s) (height s)) r1"
    and "contains (MakeWH (SkIRect_width r1) (SkIRect_height r1)) r2"
  shows "\<exists>s1 s2 s3.
     makeSubset (onMakeSubset_Raster u1) s r1 = Some s1 \<and>
     makeSubset (onMakeSubset_Raster u2) s1 r2 = Some s2 \<and>
     makeSubset (onMakeSubset_Raster u3) s (makeOffset r2 (topLeft r1)) = Some s3 \<and>
     pixel_content s2 = pixel_content s3 \<and>
     fSubset s2 = fSubset s3 \<and> backing s2 = backing s \<and> backing s3 = backing s"
  by (simp add: makeSubset_def onMakeSubset_Raster_def pixel_content_def makeOffset_def
      topLeft_def subset_of_def add.assoc)

theorem makeSubset_twice_is_makeSubset_once_witness:
  "contains (MakeWH (width demo_image) (height demo_image))
      \<lparr>fLeft = 0, fTop = 1, fRight = 2, fBottom = 3\<rparr>
   \<and> contains (MakeWH 2 2) \<lparr>fLeft = 1, fTop = 0, fRight = 2, fBottom = 1\<rparr>
   \<and> (\<exists>s1 s2 s3.
        makeSubset (onMakeSubset_Raster 1) demo_image
          \<lparr>fLeft = 0, fTop = 1, fRight = 2, fBottom = 3\<rparr> = Some s1 \<and>
        makeSubset (onMakeSubset_Raster 2) s1
          \<lparr>fLeft = 1, fTop = 0, fRight = 2, fBottom = 1\<rparr> = Some s2 \<and>
        makeSubset (onMakeSubset_Raster 3) demo_image
          \<lparr>fLeft = 1, fTop = 1, fRight = 2, fBottom = 2\<rparr> = Some s3 \<and>
        pixel_content s2 = pixel_content s3)"
proof -
  let ?r1 = "\<lparr>fLeft = 0, fTop = 1, fRight = 2, fBottom = 3\<rparr>"
  let ?r2 = "\<lparr>fLeft = 1, fTop = 0, fRight = 2, fBottom = 1\<rparr>"
  have h1: "contains (MakeWH (width demo_image) (height demo_image)) ?r1"
    by (simp add: contains_def MakeWH_def width_def height_def demo_image_def
        SkIRect_width_def SkIRect_height_def)
  have h2: "contains (MakeWH (SkIRect_width ?r1) (SkIRect_height ?r1)) ?r2"
    by (simp add: contains_def MakeWH_def SkIRect_width_def SkIRect_height_def)
  have w: "SkIRect_width ?r1 = 2" "SkIRect_height ?r1 = 2"
    "makeOffset ?r2 (topLeft ?r1) = \<lparr>fLeft = 1, fTop = 1, fRight = 2, fBottom = 2\<rparr>"
    by (simp_all add: SkIRect_width_def SkIRect_height_def makeOffset_def topLeft_def)
  from makeSubset_twice_is_makeSubset_once [OF h1 h2, of 1 2 3] h1 h2 show ?thesis
    unfolding w by blast
qed











text \<open>
  C8. For every special image, \<open>AsBitmap\<close> either returns true with the output
  replaced by a pixel view that does not depend on what the output held before, or
  returns false with the output as the caller passed it. It never leaves anything
  else in the output.
\<close>

theorem AsBitmap_fills_or_leaves_untouched:
  "(\<exists>bm. \<forall>out. AsBitmap readback img out = (True, bm))
   \<or> (\<forall>out. AsBitmap readback img out = (False, out))"
  by (cases img) (auto simp: AsBitmap_def split: option.splits)

text \<open>Both outcomes occur: a raster-backed image is always readable, and a
  GPU-backed image whose readback is impossible leaves the output alone.\<close>

lemma AsBitmap_raster_example:
  "AsBitmap (\<lambda>(t::unit) r. None) (RasterImage demo_image) demo_bitmap =
     (True, \<lparr>bmColorInfo = (), bmWidth = 2, bmHeight = 3,
             bmPixels = [[2, 3], [5, 6], [8, 9]]\<rparr>)"
  by (simp add: AsBitmap_def raster_view_def pixel_content_def crop_def width_def
      height_def demo_image_def demo_bitmap_def SkIRect_width_def SkIRect_height_def)

lemma AsBitmap_failure_example:
  "AsBitmap (\<lambda>(t::unit) r. None)
     (GaneshImage \<lparr>fSubset = MakeWH 2 2, fUniqueID = 9, fColorInfo = (), fProps = (),
                   backing = ()\<rparr>) demo_bitmap = (False, demo_bitmap)"
  by (simp add: AsBitmap_def)

text \<open>
  C9. For every well-formed pixel map \<open>pm\<close> and every rectangle with pixels inside
  its bounds, \<open>CopyFromRaster\<close> succeeds when the pixel configuration is supported,
  and \<open>AsBitmap\<close> on the image it returns succeeds with exactly the pixels of
  \<open>pm\<close> cropped to the rectangle: a well-formed pixel map of the rectangle's size
  with the colour descriptor of \<open>pm\<close>.
\<close>

theorem CopyFromRaster_AsBitmap_round_trip:
  assumes "bitmap_wf pm" and "\<not> isEmpty sub" and "contains (bounds pm) sub"
  shows "(supported (bmColorInfo pm) \<longrightarrow>
            CopyFromRaster supported uid sub pm surfaceProps \<noteq> None)
     \<and> (\<forall>s. CopyFromRaster supported uid sub pm surfaceProps = Some s \<longrightarrow>
          (\<exists>bm. AsBitmap readback (RasterImage s) out = (True, bm)
                \<and> bmPixels bm = crop (bmPixels pm) sub
                \<and> bmWidth bm = SkIRect_width sub \<and> bmHeight bm = SkIRect_height sub
                \<and> bmColorInfo bm = bmColorInfo pm \<and> bitmap_wf bm))"
proof (intro conjI impI allI)
  assume "supported (bmColorInfo pm)"
  moreover from assms have "\<not> bitmap_empty pm"
    by (auto simp: bitmap_empty_def isEmpty_def contains_def bounds_def MakeWH_def)
  ultimately show "CopyFromRaster supported uid sub pm surfaceProps \<noteq> None"
    using assms(2) by (simp add: CopyFromRaster_def Let_def)
next
  fix s assume "CopyFromRaster supported uid sub pm surfaceProps = Some s"
  then have s: "s = \<lparr>fSubset = MakeWH (SkIRect_width sub) (SkIRect_height sub),
                 fUniqueID = uid, fColorInfo = bmColorInfo pm,
                 fProps = surfaceProps, backing = \<lparr>bmColorInfo = bmColorInfo pm,
                   bmWidth = SkIRect_width sub, bmHeight = SkIRect_height sub,
                   bmPixels = crop (bmPixels pm) sub\<rparr>\<rparr>"
    by (auto simp: CopyFromRaster_def Let_def split: if_splits)
  have v: "raster_view s = \<lparr>bmColorInfo = bmColorInfo pm,
                   bmWidth = SkIRect_width sub, bmHeight = SkIRect_height sub,
                   bmPixels = crop (bmPixels pm) sub\<rparr>"
    unfolding s raster_view_def pixel_content_def
    by (simp add: crop_idem width_def height_def) (simp add: SkIRect_width_def SkIRect_height_def MakeWH_def)
  show "\<exists>bm. AsBitmap readback (RasterImage s) out = (True, bm)
                \<and> bmPixels bm = crop (bmPixels pm) sub
                \<and> bmWidth bm = SkIRect_width sub \<and> bmHeight bm = SkIRect_height sub
                \<and> bmColorInfo bm = bmColorInfo pm \<and> bitmap_wf bm"
    using assms by (simp add: AsBitmap_def v crop_wf)
qed


theorem CopyFromRaster_AsBitmap_round_trip_witness:
  "bitmap_wf demo_bitmap
   \<and> \<not> isEmpty \<lparr>fLeft = 1, fTop = 1, fRight = 3, fBottom = 3\<rparr>
   \<and> contains (bounds demo_bitmap) \<lparr>fLeft = 1, fTop = 1, fRight = 3, fBottom = 3\<rparr>
   \<and> (\<exists>s bm. CopyFromRaster (\<lambda>c. True) 5 \<lparr>fLeft = 1, fTop = 1, fRight = 3, fBottom = 3\<rparr>
               demo_bitmap () = Some s
             \<and> AsBitmap (\<lambda>(t::unit) r. None) (RasterImage s) demo_bitmap = (True, bm)
             \<and> bmPixels bm = [[5, 6], [8, 9]])"
proof -
  let ?r = "\<lparr>fLeft = 1, fTop = 1, fRight = 3, fBottom = 3\<rparr>"
  have h1: "bitmap_wf demo_bitmap"
    by (simp add: bitmap_wf_def demo_bitmap_def)
  have h2: "\<not> isEmpty ?r"
    by (simp add: isEmpty_def)
  have h3: "contains (bounds demo_bitmap) ?r"
    by (simp add: demo_bitmap_def contains_def bounds_def MakeWH_def)
  have c: "crop (bmPixels demo_bitmap) ?r = [[5, 6], [8, 9]]"
    by (simp add: crop_def demo_bitmap_def SkIRect_width_def SkIRect_height_def)
  from CopyFromRaster_AsBitmap_round_trip [OF h1 h2 h3, of "\<lambda>c. True" 5 "()" "\<lambda>(t::unit) r. None" demo_bitmap]
  have "\<exists>s bm. CopyFromRaster (\<lambda>c. True) 5 ?r demo_bitmap () = Some s
             \<and> AsBitmap (\<lambda>(t::unit) r. None) (RasterImage s) demo_bitmap = (True, bm)
             \<and> bmPixels bm = crop (bmPixels demo_bitmap) ?r"
    by fastforce
  with h1 h2 h3 show ?thesis unfolding c by blast
qed

end
